theory Spec2Isabelle
  imports Complex_Main "HOL-Library.Char_ord" "HOL-Library.List_Lexorder"
    "HOL-Library.Product_Lexorder"
begin

section \<open>Data model of the dashboard (frontend/app/page.tsx)\<close>

text \<open>
  The string-literal union \<^verbatim>\<open>"low" | "medium" | "high" | "critical"\<close> of
  \<^verbatim>\<open>CrowdData.crowd_level\<close> is a datatype; \<open>level_string\<close> gives back the literal
  that the running program holds, for the functions that take a plain \<^verbatim>\<open>string\<close>.
\<close>

datatype crowd_level = Low | Medium | High | Critical

fun level_string :: "crowd_level \<Rightarrow> string" where
  "level_string Low = ''low''"
| "level_string Medium = ''medium''"
| "level_string High = ''high''"
| "level_string Critical = ''critical''"

text \<open>The order Low < Medium < High < Critical, as a rank.\<close>

fun level_rank :: "crowd_level \<Rightarrow> nat" where
  "level_rank Low = 0"
| "level_rank Medium = 1"
| "level_rank High = 2"
| "level_rank Critical = 3"

text \<open>
  \<^verbatim>\<open>interface CrowdData\<close>. JavaScript numbers that hold whole counts are \<open>int\<close>, the
  decimal literal of \<^verbatim>\<open>safety_score\<close> is the rational it denotes.
\<close>

record CrowdData =
  zone_id :: string
  zone_name :: string
  current_occupancy :: int
  max_capacity :: int
  crowd_level :: crowd_level
  safety_score :: rat
  accessibility_features :: "string list"
  last_updated :: string

text \<open>
  \<^verbatim>\<open>interface Emergency\<close>; the optional members are \<open>option\<close>s. The status union is
  declared in the order \<^verbatim>\<open>"active" | "resolved" | "responding"\<close>.
\<close>

datatype severity = SevLow | SevMedium | SevHigh | SevCritical

datatype emergency_status = Active | Resolved | Responding

record Emergency =
  id_e :: string
  type_e :: string
  location :: string
  severity :: severity
  status :: emergency_status
  timestamp :: string
  response_time :: "rat option"
  assigned_team :: "string option"

subsection \<open>The data loaded by the effect hook\<close>

text \<open>
  \<^verbatim>\<open>mockCrowdData\<close>, lines 107 to 158. Every \<^verbatim>\<open>last_updated\<close> is
  \<^verbatim>\<open>new Date().toISOString()\<close>, a value of the environment: the parameter \<open>now\<close>.
\<close>

definition mockCrowdData :: "string \<Rightarrow> CrowdData list" where
  "mockCrowdData now =
    [ \<lparr> zone_id = ''1'', zone_name = ''Mahakaleshwar Temple'',
        current_occupancy = 2850, max_capacity = 3000, crowd_level = High,
        safety_score = 72 / 10,
        accessibility_features = [''Wheelchair Access'', ''Audio Guidance'', ''Rest Areas''],
        last_updated = now \<rparr>,
      \<lparr> zone_id = ''2'', zone_name = ''Shipra Ghat'',
        current_occupancy = 1450, max_capacity = 2000, crowd_level = Medium,
        safety_score = 85 / 10,
        accessibility_features = [''Ramp Access'', ''Portable Toilets'', ''Medical Station''],
        last_updated = now \<rparr>,
      \<lparr> zone_id = ''3'', zone_name = ''VIP Parking Zone'',
        current_occupancy = 320, max_capacity = 500, crowd_level = Medium,
        safety_score = 91 / 10,
        accessibility_features = [''Reserved Parking'', ''Security'', ''Direct Access''],
        last_updated = now \<rparr>,
      \<lparr> zone_id = ''4'', zone_name = ''Medical Center Hub'',
        current_occupancy = 45, max_capacity = 100, crowd_level = Low,
        safety_score = 98 / 10,
        accessibility_features = [''Emergency Access'', ''Ambulance Bay'', ''Helicopter Pad''],
        last_updated = now \<rparr>,
      \<lparr> zone_id = ''5'', zone_name = ''Food Court Area'',
        current_occupancy = 890, max_capacity = 1200, crowd_level = Medium,
        safety_score = 83 / 10,
        accessibility_features = [''Wheelchair Tables'', ''Water Stations'', ''Shade Covers''],
        last_updated = now \<rparr> ]"

text \<open>\<^verbatim>\<open>mockEmergencies\<close>, lines 160 to 180.\<close>

definition mockEmergencies :: "Emergency list" where
  "mockEmergencies =
    [ \<lparr> id_e = ''1'', type_e = ''Medical Emergency'',
        location = ''Mahakaleshwar Temple - Section B'', severity = SevHigh,
        status = Responding, timestamp = ''2024-01-15T10:30:00Z'',
        response_time = Some 4, assigned_team = Some ''Medical Team Alpha'' \<rparr>,
      \<lparr> id_e = ''2'', type_e = ''Crowd Congestion'',
        location = ''Shipra Ghat - Entry Point 2'', severity = SevMedium,
        status = Active, timestamp = ''2024-01-15T11:15:00Z'',
        response_time = None, assigned_team = Some ''Crowd Control Beta'' \<rparr> ]"

text \<open>
  The state variable \<^verbatim>\<open>crowdData\<close> starts as \<^verbatim>\<open>[]\<close> (\<^verbatim>\<open>useState<CrowdData[]>([])\<close>)
  and its only setter call is \<^verbatim>\<open>setCrowdData(mockCrowdData)\<close> in the effect hook, so
  these are the values it ever holds.
\<close>

definition crowdData_values :: "string \<Rightarrow> CrowdData list list" where
  "crowdData_values now = [[], mockCrowdData now]"

subsection \<open>Occupancy ratio and its band\<close>

text \<open>
  \<^verbatim>\<open>zone.current_occupancy / zone.max_capacity\<close>, as the crowd tab computes it
  (lines 655 and 657). The quotient is taken in the rationals; HOL's \<open>x / 0 = 0\<close>
  differs from JavaScript's \<^verbatim>\<open>Infinity\<close> or \<^verbatim>\<open>NaN\<close>, so results about the ratio say
  that the capacity is positive.
\<close>

definition occupancy_ratio :: "CrowdData \<Rightarrow> rat" where
  "occupancy_ratio zone = of_int (current_occupancy zone) / of_int (max_capacity zone)"

text \<open>
  The band of a ratio in the words of the specification: Medium from 0.5, High from
  0.8, Critical from 1.0, Low below 0.5. The program has no such function; this
  definition is what its stored levels are compared with.
\<close>

definition spec_band_of_ratio :: "rat \<Rightarrow> crowd_level" where
  "spec_band_of_ratio r =
    (if 1 \<le> r then Critical
     else if 8 / 10 \<le> r then High
     else if 5 / 10 \<le> r then Medium
     else Low)"

subsection \<open>Consumers of the crowd level\<close>

text \<open>\<^verbatim>\<open>getCrowdLevelColor\<close>, lines 241 to 254: a switch on a plain string.\<close>

definition getCrowdLevelColor :: "string \<Rightarrow> string" where
  "getCrowdLevelColor level =
    (if level = ''low'' then ''bg-green-100 text-green-800 border-green-200''
     else if level = ''medium'' then ''bg-yellow-100 text-yellow-800 border-yellow-200''
     else if level = ''high'' then ''bg-orange-100 text-orange-800 border-orange-200''
     else if level = ''critical'' then ''bg-red-100 text-red-800 border-red-200''
     else ''bg-gray-100 text-gray-800 border-gray-200'')"

text \<open>
  The class chosen for a zone tile of the map, lines 579 to 585: a chain of two
  conditional expressions on \<^verbatim>\<open>zone.crowd_level\<close>.
\<close>

definition heatmap_class :: "CrowdData \<Rightarrow> string" where
  "heatmap_class zone =
    (if crowd_level zone = High then ''heatmap-high border-red-300''
     else if crowd_level zone = Medium then ''heatmap-medium border-yellow-300''
     else ''heatmap-low border-green-300'')"

text \<open>The badge of the same tile, line 592, and the pulse frame, line 598.\<close>

definition badge_class :: "CrowdData \<Rightarrow> string" where
  "badge_class zone = getCrowdLevelColor (level_string (crowd_level zone))"

definition pulse_shown :: "CrowdData \<Rightarrow> bool" where
  "pulse_shown zone = (crowd_level zone = High)"

text \<open>
  The tiles of the map, line 576: one for each of the first six zone records, with its
  class, the class of its badge and whether it has a pulse frame.
\<close>

definition map_tiles :: "CrowdData list \<Rightarrow> (string \<times> string \<times> bool) list" where
  "map_tiles crowdData =
    map (\<lambda>zone. (heatmap_class zone, badge_class zone, pulse_shown zone)) (take 6 crowdData)"

subsection \<open>Emergency counter and alert banner\<close>

text \<open>
  Line 478: \<^verbatim>\<open>emergencies.filter((e) => e.status === "active").length\<close>, and the
  filter of the banner, lines 399 to 403.
\<close>

definition emergencies_statistic :: "Emergency list \<Rightarrow> nat" where
  "emergencies_statistic emergencies = length (filter (\<lambda>e. status e = Active) emergencies)"

definition alert_banner :: "Emergency list \<Rightarrow> Emergency list" where
  "alert_banner emergencies = filter (\<lambda>e. status e = Active \<or> status e = Responding) emergencies"

definition alert_banner_shown :: "Emergency list \<Rightarrow> bool" where
  "alert_banner_shown emergencies = (0 < length (alert_banner emergencies))"

section \<open>The simulation console\<close>

text \<open>\<^verbatim>\<open>interface SimulationScenario\<close> and the table \<^verbatim>\<open>simulationScenarios\<close>, lines 286 to 315.\<close>

datatype scenario_type = crowd_overflow | weather_emergency | vip_movement | accessibility_event

record SimulationScenario =
  id_s :: string
  name_s :: string
  type_s :: scenario_type
  description :: string
  duration :: int

definition simulationScenarios :: "SimulationScenario list" where
  "simulationScenarios =
    [ \<lparr> id_s = ''1'', name_s = ''Crowd Overflow Scenario'', type_s = crowd_overflow,
        description = ''Simulate high crowd density during peak hours'', duration = 30 \<rparr>,
      \<lparr> id_s = ''2'', name_s = ''Weather Emergency'', type_s = weather_emergency,
        description = ''Heavy rainfall impact on crowd movement'', duration = 45 \<rparr>,
      \<lparr> id_s = ''3'', name_s = ''VIP Movement Protocol'', type_s = vip_movement,
        description = ''Coordinate VIP arrival and route clearance'', duration = 20 \<rparr>,
      \<lparr> id_s = ''4'', name_s = ''Accessibility Event'', type_s = accessibility_event,
        description = ''Large group requiring accessibility assistance'', duration = 35 \<rparr> ]"

text \<open>
  The part of the component state that the simulation reads and writes: the three
  \<^verbatim>\<open>useState\<close> variables, and the interval timers that \<^verbatim>\<open>setInterval\<close> has created
  and \<^verbatim>\<open>clearInterval\<close> has not yet cleared. A timer is named by its handle;
  \<open>nextHandle\<close> is the handle the next \<^verbatim>\<open>setInterval\<close> returns.
\<close>

record simulation =
  selectedScenario :: string
  simulationProgress :: int
  isSimulationRunning :: bool
  activeIntervals :: "nat list"
  nextHandle :: nat

definition initial_simulation :: simulation where
  "initial_simulation =
    \<lparr> selectedScenario = '''', simulationProgress = 0, isSimulationRunning = False,
      activeIntervals = [], nextHandle = 0 \<rparr>"

text \<open>\<^verbatim>\<open>startSimulation\<close>, lines 317 to 330, up to the creation of the timer.\<close>

definition startSimulation :: "simulation \<Rightarrow> simulation" where
  "startSimulation s =
    s \<lparr> isSimulationRunning := True, simulationProgress := 0,
        activeIntervals := activeIntervals s @ [nextHandle s],
        nextHandle := Suc (nextHandle s) \<rparr>"

text \<open>
  One firing of the callback of timer \<open>h\<close>, lines 321 to 328. A cleared timer does not
  fire. The callback reads the latest progress (a functional state update).
\<close>

definition interval_tick :: "nat \<Rightarrow> simulation \<Rightarrow> simulation" where
  "interval_tick h s =
    (if h \<notin> set (activeIntervals s) then s
     else if 100 \<le> simulationProgress s then
       s \<lparr> activeIntervals := removeAll h (activeIntervals s),
           isSimulationRunning := False, simulationProgress := 100 \<rparr>
     else s \<lparr> simulationProgress := simulationProgress s + 2 \<rparr>)"

text \<open>\<^verbatim>\<open>resetSimulation\<close>, lines 332 to 335. It clears no timer.\<close>

definition resetSimulation :: "simulation \<Rightarrow> simulation" where
  "resetSimulation s = s \<lparr> isSimulationRunning := False, simulationProgress := 0 \<rparr>"

text \<open>
  The controls of the console: the scenario selector (\<^verbatim>\<open>onValueChange={setSelectedScenario}\<close>),
  the start button, disabled when no scenario is selected or a simulation runs
  (line 875), and the reset button, disabled at progress 0 (line 890).
\<close>

definition setSelectedScenario :: "string \<Rightarrow> simulation \<Rightarrow> simulation" where
  "setSelectedScenario v s = s \<lparr> selectedScenario := v \<rparr>"

definition click_start :: "simulation \<Rightarrow> simulation" where
  "click_start s =
    (if selectedScenario s = '''' \<or> isSimulationRunning s then s else startSimulation s)"

definition click_reset :: "simulation \<Rightarrow> simulation" where
  "click_reset s = (if simulationProgress s = 0 then s else resetSimulation s)"

text \<open>
  Sequences of calls. \<open>call\<close> lists the functions themselves, \<open>ui_event\<close> what a user
  and the timers can do through the rendered controls.
\<close>

datatype call = StartSimulation | ResetSimulation | Tick nat

fun do_call :: "call \<Rightarrow> simulation \<Rightarrow> simulation" where
  "do_call StartSimulation s = startSimulation s"
| "do_call ResetSimulation s = resetSimulation s"
| "do_call (Tick h) s = interval_tick h s"

fun do_calls :: "call list \<Rightarrow> simulation \<Rightarrow> simulation" where
  "do_calls [] s = s"
| "do_calls (c # cs) s = do_calls cs (do_call c s)"

datatype ui_event = ClickStart | ClickReset | TimerFires nat

fun do_event :: "ui_event \<Rightarrow> simulation \<Rightarrow> simulation" where
  "do_event ClickStart s = click_start s"
| "do_event ClickReset s = click_reset s"
| "do_event (TimerFires h) s = interval_tick h s"

fun do_events :: "ui_event list \<Rightarrow> simulation \<Rightarrow> simulation" where
  "do_events [] s = s"
| "do_events (e # es) s = do_events es (do_event e s)"

text \<open>The progress values shown along a sequence of events, the first state included.\<close>

fun progress_trace :: "ui_event list \<Rightarrow> simulation \<Rightarrow> int list" where
  "progress_trace [] s = [simulationProgress s]"
| "progress_trace (e # es) s = simulationProgress s # progress_trace es (do_event e s)"

section \<open>Routes\<close>

text \<open>
  \<^verbatim>\<open>interface RouteData\<close>, lines 73 to 82, and the two smaller unions it uses.
\<close>

datatype route_type = pilgrim | vip | emergency | accessibility

datatype traffic = TrafficLow | TrafficMedium | TrafficHigh

record RouteData =
  id_r :: string
  name_r :: string
  type_r :: route_type
  distance :: rat
  estimated_time :: rat
  safety_score_r :: rat
  features :: "string list"
  current_traffic :: traffic

text \<open>\<^verbatim>\<open>mockRoutes\<close>, lines 191 to 232, the only value \<^verbatim>\<open>setRoutes\<close> is called with.\<close>

definition mockRoutes :: "RouteData list" where
  "mockRoutes =
    [ \<lparr> id_r = ''1'', name_r = ''Main Pilgrim Route'', type_r = pilgrim,
        distance = 25 / 10, estimated_time = 15, safety_score_r = 85 / 10,
        features = [''Shade Coverage'', ''Water Points'', ''Rest Areas''],
        current_traffic = TrafficHigh \<rparr>,
      \<lparr> id_r = ''2'', name_r = ''VIP Corridor'', type_r = vip,
        distance = 18 / 10, estimated_time = 8, safety_score_r = 92 / 10,
        features = [''Security Escort'', ''Climate Control'', ''Direct Access''],
        current_traffic = TrafficLow \<rparr>,
      \<lparr> id_r = ''3'', name_r = ''Emergency Access Route'', type_r = emergency,
        distance = 12 / 10, estimated_time = 5, safety_score_r = 98 / 10,
        features = [''Clear Path'', ''Emergency Lighting'', ''Communication Points''],
        current_traffic = TrafficLow \<rparr>,
      \<lparr> id_r = ''4'', name_r = ''Accessibility Path'', type_r = accessibility,
        distance = 32 / 10, estimated_time = 25, safety_score_r = 9,
        features = [''Wheelchair Friendly'', ''Gentle Slopes'', ''Audio Guidance''],
        current_traffic = TrafficMedium \<rparr> ]"

text \<open>
  What a route object holds at run time: its own properties in declaration order, each
  a string, a number or a list of strings (the two unions are strings at run time).
\<close>

datatype member = Text string | Number rat | TextList "string list"

fun route_type_string :: "route_type \<Rightarrow> string" where
  "route_type_string pilgrim = ''pilgrim''"
| "route_type_string vip = ''vip''"
| "route_type_string emergency = ''emergency''"
| "route_type_string accessibility = ''accessibility''"

fun traffic_string :: "traffic \<Rightarrow> string" where
  "traffic_string TrafficLow = ''low''"
| "traffic_string TrafficMedium = ''medium''"
| "traffic_string TrafficHigh = ''high''"

definition route_members :: "RouteData \<Rightarrow> (string \<times> member) list" where
  "route_members r =
    [ (''id'', Text (id_r r)),
      (''name'', Text (name_r r)),
      (''type'', Text (route_type_string (type_r r))),
      (''distance'', Number (distance r)),
      (''estimated_time'', Number (estimated_time r)),
      (''safety_score'', Number (safety_score_r r)),
      (''features'', TextList (features r)),
      (''current_traffic'', Text (traffic_string (current_traffic r))) ]"

fun is_number :: "member \<Rightarrow> bool" where
  "is_number (Number x) = True"
| "is_number m = False"

fun is_sequence :: "member \<Rightarrow> bool" where
  "is_sequence (TextList xs) = True"
| "is_sequence m = False"

definition number_members :: "(string \<times> member) list \<Rightarrow> string list" where
  "number_members ms = map fst (filter (\<lambda>km. is_number (snd km)) ms)"

definition sequence_members :: "(string \<times> member) list \<Rightarrow> string list" where
  "sequence_members ms = map fst (filter (\<lambda>km. is_sequence (snd km)) ms)"

text \<open>
  The route of the specification, in its words: an ordered sequence of zone or segment
  ids, and four numbers: total distance, total estimated time, aggregate safety score
  and crowd-exposure integral. An object can hold these only if it has a sequence
  member and at least four number members.
\<close>

definition spec_route_shape :: "(string \<times> member) list \<Rightarrow> bool" where
  "spec_route_shape ms = (1 \<le> length (sequence_members ms) \<and> 4 \<le> length (number_members ms))"

section \<open>The engine behind the dashboard, modelled from the specification\<close>

text \<open>
  The dashboard only displays zone, emergency and route values. The operations that the
  specification describes on them (the occupancy store, the emergency lifecycle, the
  route search) belong to the backend services, whose code is not among the sources
  here. Each is modelled below from the words of the specification.
\<close>

text \<open>Modelled from the spec: the error taxonomy of section 7, missing from the sources.\<close>

datatype error = InvalidInput | NotFound | StaleData | Timeout | Isolated

subsection \<open>OccupancyState\<close>

text \<open>
  Modelled from the spec: the OccupancyRecord of section 3 and the provenance of its
  count, missing from the sources. Timestamps are integers.
\<close>

datatype source = Measured | Estimated

record OccupancyRecord =
  zoneId :: string
  count :: nat
  capacity :: nat
  level :: crowd_level
  confidence :: rat
  source :: source
  timestamp_o :: int

text \<open>
  Modelled from the spec: the entry thresholds of the bands (section 4.2), missing from
  the sources: Medium 0.5, High 0.8, Critical 1.0; Low has none and starts at 0.
\<close>

fun entry_threshold :: "crowd_level \<Rightarrow> rat" where
  "entry_threshold Low = 0"
| "entry_threshold Medium = 5 / 10"
| "entry_threshold High = 8 / 10"
| "entry_threshold Critical = 1"

text \<open>
  Modelled from the spec: the threshold under which a band is left (section 4.2),
  missing from the sources: 10 percentage points under the entry threshold.
\<close>

definition exit_threshold :: "crowd_level \<Rightarrow> rat" where
  "exit_threshold l = entry_threshold l - 1 / 10"

text \<open>
  Modelled from the spec: the hysteretic level of section 4.2, missing from the
  sources. A band is entered at its entry threshold and left only when the ratio drops
  below its exit threshold. A ratio that has left the previous band falls to the
  highest band below it that it has not left in this sense.
\<close>

definition hysteretic_level :: "crowd_level \<Rightarrow> rat \<Rightarrow> crowd_level" where
  "hysteretic_level previous r =
    (if level_rank previous \<le> level_rank (spec_band_of_ratio r) then spec_band_of_ratio r
     else if previous = Critical \<and> exit_threshold Critical \<le> r then Critical
     else if level_rank High \<le> level_rank previous \<and> exit_threshold High \<le> r then High
     else if level_rank Medium \<le> level_rank previous \<and> exit_threshold Medium \<le> r then Medium
     else Low)"

text \<open>
  Modelled from the spec: the store of section 4.2, missing from the sources: one
  record per zone, by zone id.
\<close>

type_synonym occupancy_state = "string \<rightharpoonup> OccupancyRecord"

text \<open>
  Modelled from the spec: the record that replaces the stored one (section 4.2),
  missing from the sources. The level is recomputed from the count, the capacity and
  the previous level; the capacity is a positive integer in the specification. A fresh
  record has full confidence, which decays only with the time since the update.
\<close>

definition updated_record ::
  "crowd_level \<Rightarrow> nat \<Rightarrow> string \<Rightarrow> nat \<Rightarrow> source \<Rightarrow> int \<Rightarrow> OccupancyRecord" where
  "updated_record previous cap z c src ts =
    \<lparr> zoneId = z, count = c, capacity = cap,
      level = hysteretic_level previous (of_nat c / of_nat cap),
      confidence = 1, source = src, timestamp_o = ts \<rparr>"

text \<open>
  Modelled from the spec: \<^verbatim>\<open>applyUpdate(zoneId, count, source, timestamp)\<close> of section
  4.2, missing from the sources. An update whose timestamp is less than or equal to the
  one stored for the zone is rejected: the store is returned as it was, with the signal
  \<open>StaleData\<close>. Any other update replaces the record. A zone without a record has no
  previous level (Low is taken) and gets its capacity from the zone table, the
  parameter \<open>capacity_of\<close>.
\<close>

definition applyUpdate ::
  "(string \<Rightarrow> nat) \<Rightarrow> occupancy_state \<Rightarrow> string \<Rightarrow> nat \<Rightarrow> source \<Rightarrow> int
     \<Rightarrow> error option \<times> occupancy_state" where
  "applyUpdate capacity_of st z c src ts =
    (case st z of
       None \<Rightarrow> (None, st(z \<mapsto> updated_record Low (capacity_of z) z c src ts))
     | Some stored \<Rightarrow>
         if ts \<le> timestamp_o stored then (Some StaleData, st)
         else (None, st(z \<mapsto> updated_record (level stored) (capacity stored) z c src ts)))"

subsection \<open>Emergency lifecycle\<close>

text \<open>
  Modelled from the spec: the lifecycle order Reported, Responding, Resolved of section
  3, missing from the sources. The three statuses are the union that
  \<^verbatim>\<open>interface Emergency\<close> declares; \<open>Active\<close> (\<^verbatim>\<open>"active"\<close>) is the status of an emergency
  that has been reported and not yet taken up, the Reported of the specification.
\<close>

fun lifecycle_rank :: "emergency_status \<Rightarrow> nat" where
  "lifecycle_rank Active = 0"
| "lifecycle_rank Responding = 1"
| "lifecycle_rank Resolved = 2"

text \<open>
  Modelled from the spec: the Emergency of section 3, missing from the sources (the
  dashboard's \<^verbatim>\<open>interface Emergency\<close> is a view of it for display).
\<close>

datatype emergency_type = medical | stampede | fire | security | natural

record EmergencyRecord =
  emergencyId :: nat
  emergencyType :: emergency_type
  locationZoneId :: string
  emergencySeverity :: severity
  emergencyStatus :: emergency_status
  reportedAt :: int
  resolvedAt :: "int option"

text \<open>
  Modelled from the spec: the status change of an emergency (section 3 and scenario C
  of section 8), missing from the sources. A change to an earlier status of the
  lifecycle is rejected as \<open>InvalidInput\<close> and the record stays as it was; any other
  change sets the status, and entering Resolved records the time of resolution.
\<close>

definition setStatus ::
  "EmergencyRecord \<Rightarrow> emergency_status \<Rightarrow> int \<Rightarrow> error option \<times> EmergencyRecord" where
  "setStatus e new ts =
    (if lifecycle_rank new < lifecycle_rank (emergencyStatus e) then (Some InvalidInput, e)
     else if new = emergencyStatus e then (None, e)
     else (None, e \<lparr> emergencyStatus := new,
                      resolvedAt := (if new = Resolved then Some ts else resolvedAt e) \<rparr>))"

text \<open>
  Modelled from the spec: a sequence of status changes on one emergency, each with its
  time; a rejected change leaves the record, and the next one is tried on it.
\<close>

fun setStatuses :: "EmergencyRecord \<Rightarrow> (emergency_status \<times> int) list \<Rightarrow> EmergencyRecord" where
  "setStatuses e [] = e"
| "setStatuses e ((new, ts) # rest) = setStatuses (snd (setStatus e new ts)) rest"

subsection \<open>RoutePlanner\<close>

text \<open>
  Modelled from the spec: the Segment and the graph of sections 3 and 4.1 and the
  options of \<^verbatim>\<open>findRoute\<close> (section 4.4), missing from the sources. Zones are named by
  their ids; a segment joins two zones in both directions, and several segments may
  join the same pair. The deadline of the options is a point in real time and is left
  out, with the \<open>Timeout\<close> result it leads to.
\<close>

record Segment =
  segmentId :: string
  zoneA :: string
  zoneB :: string
  baseTravelTime :: rat
  segmentLength :: rat
  accessible :: bool

record ZoneGraph =
  zones :: "string list"
  segments :: "Segment list"

record options =
  avoidCrowds :: bool
  accessibilityRequired :: bool
  maxSafetyRisk :: rat

text \<open>
  Modelled from the spec: a segment joins its two endpoints in either direction (the
  graph of section 3 is undirected), missing from the sources.
\<close>

definition joins :: "Segment \<Rightarrow> string \<Rightarrow> string \<Rightarrow> bool" where
  "joins seg a b = ((zoneA seg = a \<and> zoneB seg = b) \<or> (zoneA seg = b \<and> zoneB seg = a))"

text \<open>
  Modelled from the spec: which segments a search may use (section 4.4), missing from
  the sources. A segment that fails \<open>accessibilityRequired\<close> is excluded from the search.
\<close>

definition admissible :: "options \<Rightarrow> Segment \<Rightarrow> bool" where
  "admissible opts seg = (accessibilityRequired opts \<longrightarrow> accessible seg)"

text \<open>
  Modelled from the spec: the cost of going from a zone to a neighbouring zone, missing
  from the sources: that of the cheapest usable segment between the two. The cost of a
  segment is the CostModel of section 4.3 under the snapshot and the options of the
  call, a pure function that is not among the sources: the parameter \<open>edge_cost\<close>.
\<close>

definition hop_cost ::
  "(Segment \<Rightarrow> rat) \<Rightarrow> options \<Rightarrow> Segment list \<Rightarrow> string \<Rightarrow> string \<Rightarrow> rat option" where
  "hop_cost edge_cost opts segs a b =
    (let usable = filter (\<lambda>seg. joins seg a b \<and> admissible opts seg) segs
     in if usable = [] then None else Some (Min (edge_cost ` set usable)))"

text \<open>
  Modelled from the spec: the routes a search chooses among, missing from the sources:
  the paths from the current zone to the destination that visit no zone twice, over
  the zones \<open>zs\<close> not yet visited.
\<close>

function simple_paths ::
  "(string \<Rightarrow> string \<Rightarrow> bool) \<Rightarrow> string list \<Rightarrow> string \<Rightarrow> string \<Rightarrow> string list list" where
  "simple_paths adj zs cur dst =
    (if cur = dst then [[cur]]
     else concat (map (\<lambda>n. map ((#) cur) (simple_paths adj (removeAll n zs) n dst))
                      (filter (adj cur) zs)))"
  by pat_completeness auto
termination
  by (relation "measure (\<lambda>(adj, zs, cur, dst). length zs)") (auto simp: length_removeAll_less)

declare simple_paths.simps [simp del]

text \<open>
  Modelled from the spec: the total cost of a route, missing from the sources: the sum
  of the costs of its hops.
\<close>

fun path_cost :: "(string \<Rightarrow> string \<Rightarrow> rat option) \<Rightarrow> string list \<Rightarrow> rat" where
  "path_cost hc (a # b # rest) =
     (case hc a b of None \<Rightarrow> 0 | Some c \<Rightarrow> c) + path_cost hc (b # rest)"
| "path_cost hc p = 0"

text \<open>Modelled from the spec: the number of hops of a route, missing from the sources.\<close>

definition hops :: "string list \<Rightarrow> nat" where
  "hops p = length p - 1"

text \<open>
  Modelled from the spec: the order in which routes are compared (section 4.4), missing
  from the sources: by cost, equal costs by fewer hops, then by the lexicographic
  order of the sequences of zone ids.
\<close>

definition route_key ::
  "(string \<Rightarrow> string \<Rightarrow> rat option) \<Rightarrow> string list \<Rightarrow> rat \<times> nat \<times> string list" where
  "route_key hc p = (path_cost hc p, hops p, p)"

text \<open>
  Modelled from the spec: the candidates of one call, missing from the sources: the
  simple paths from the source to the destination over usable segments, all costs
  taken from the one snapshot of the call.
\<close>

definition candidate_routes ::
  "(occupancy_state \<Rightarrow> options \<Rightarrow> Segment \<Rightarrow> rat) \<Rightarrow> ZoneGraph \<Rightarrow> occupancy_state
     \<Rightarrow> string \<Rightarrow> string \<Rightarrow> options \<Rightarrow> string list list" where
  "candidate_routes cost_model g snapshot src dst opts =
    simple_paths (\<lambda>a b. hop_cost (cost_model snapshot opts) opts (segments g) a b \<noteq> None)
      (removeAll src (zones g)) src dst"

text \<open>
  Modelled from the spec: \<open>preferred hc p q\<close> is the tie-break rule of section 4.4 in
  its own words, missing from the sources: \<open>p\<close> is cheaper than \<open>q\<close>, or as cheap with
  fewer hops, or as cheap with as many hops and the lexicographically smaller sequence
  of zone ids.
\<close>

definition preferred ::
  "(string \<Rightarrow> string \<Rightarrow> rat option) \<Rightarrow> string list \<Rightarrow> string list \<Rightarrow> bool" where
  "preferred hc p q =
    (path_cost hc p < path_cost hc q
     \<or> (path_cost hc p = path_cost hc q
         \<and> (hops p < hops q \<or> (hops p = hops q \<and> p < q))))"

text \<open>
  Modelled from the spec: \<^verbatim>\<open>findRoute(source, dest, options)\<close> of section 4.4, missing
  from the sources. The call works on one snapshot; an unknown zone and the absence of
  a route give \<open>NotFound\<close>; otherwise the result is the least candidate in the order of
  \<open>route_key\<close>. The specification leaves the search algorithm open (Dijkstra or A*);
  the model fixes only the route that the search has to return. How \<open>avoidCrowds\<close> and
  \<open>maxSafetyRisk\<close> weigh on a route is left to the cost model.
\<close>

definition findRoute ::
  "(occupancy_state \<Rightarrow> options \<Rightarrow> Segment \<Rightarrow> rat) \<Rightarrow> ZoneGraph \<Rightarrow> occupancy_state
     \<Rightarrow> string \<Rightarrow> string \<Rightarrow> options \<Rightarrow> error + string list" where
  "findRoute cost_model g snapshot src dst opts =
    (if src \<notin> set (zones g) \<or> dst \<notin> set (zones g) then Inl NotFound
     else if candidate_routes cost_model g snapshot src dst opts = [] then Inl NotFound
     else Inr (arg_min_list (route_key (hop_cost (cost_model snapshot opts) opts (segments g)))
                (candidate_routes cost_model g snapshot src dst opts)))"

text \<open>
  An example for the tie-break: the direct segment from X to Y costs 10, and so does
  the way over Z; the cost of a segment is its base travel time.
\<close>

definition tie_graph :: ZoneGraph where
  "tie_graph =
    \<lparr> zones = [''X'', ''Y'', ''Z''],
      segments =
        [ \<lparr> segmentId = ''xy'', zoneA = ''X'', zoneB = ''Y'', baseTravelTime = 10,
            segmentLength = 1, accessible = True \<rparr>,
          \<lparr> segmentId = ''xz'', zoneA = ''X'', zoneB = ''Z'', baseTravelTime = 5,
            segmentLength = 1, accessible = True \<rparr>,
          \<lparr> segmentId = ''zy'', zoneA = ''Z'', zoneB = ''Y'', baseTravelTime = 5,
            segmentLength = 1, accessible = True \<rparr> ] \<rparr>"

definition base_time_cost :: "occupancy_state \<Rightarrow> options \<Rightarrow> Segment \<Rightarrow> rat" where
  "base_time_cost snapshot opts seg = baseTravelTime seg"

definition plain_options :: options where
  "plain_options = \<lparr> avoidCrowds = False, accessibilityRequired = False, maxSafetyRisk = 1 \<rparr>"

section \<open>Predicates used in the proofs\<close>

text \<open>
  The progress is an even number between 0 and 100. Evenness is what makes the range
  inductive: a tick adds 2 whenever the progress is below 100.
\<close>

definition progress_ok :: "simulation \<Rightarrow> bool" where
  "progress_ok s =
    (0 \<le> simulationProgress s \<and> simulationProgress s \<le> 100 \<and> even (simulationProgress s))"

text \<open>Two states that differ at most in which scenario is selected, if any is.\<close>

definition same_but_scenario :: "simulation \<Rightarrow> simulation \<Rightarrow> bool" where
  "same_but_scenario s t =
    (simulationProgress s = simulationProgress t
     \<and> isSimulationRunning s = isSimulationRunning t
     \<and> activeIntervals s = activeIntervals t
     \<and> nextHandle s = nextHandle t
     \<and> (selectedScenario s = '''') = (selectedScenario t = ''''))"

section \<open>Crowd levels of the zone records\<close>

text \<open>
  Claim C1. Every zone record the dashboard ever holds has a positive capacity, and its
  stored crowd level is the band of its occupancy ratio under the thresholds 0.5
  (Medium), 0.8 (High) and 1.0 (Critical): no stored level disagrees with the derivation.
\<close>

theorem stored_level_is_band_of_ratio:
  "\<forall>cd \<in> set (crowdData_values now). \<forall>zone \<in> set cd.
     0 < max_capacity zone \<and> crowd_level zone = spec_band_of_ratio (occupancy_ratio zone)"
  by (simp add: crowdData_values_def mockCrowdData_def occupancy_ratio_def spec_band_of_ratio_def)

theorem stored_level_is_band_of_ratio_witness:
  "mockCrowdData ''t'' \<in> set (crowdData_values ''t'')
   \<and> mockCrowdData ''t'' ! 0 \<in> set (mockCrowdData ''t'')
   \<and> occupancy_ratio (mockCrowdData ''t'' ! 0) = 19 / 20
   \<and> crowd_level (mockCrowdData ''t'' ! 0) = High
   \<and> spec_band_of_ratio (occupancy_ratio (mockCrowdData ''t'' ! 0)) = High"
proof -
  have a: "mockCrowdData ''t'' \<in> set (crowdData_values ''t'')"
    by (simp add: crowdData_values_def)
  have b: "mockCrowdData ''t'' ! 0 \<in> set (mockCrowdData ''t'')"
    by (simp add: mockCrowdData_def)
  have c: "crowd_level (mockCrowdData ''t'' ! 0) = High"
    by (simp add: mockCrowdData_def)
  have d: "occupancy_ratio (mockCrowdData ''t'' ! 0) = 19 / 20"
    by (simp add: mockCrowdData_def occupancy_ratio_def)
  from stored_level_is_band_of_ratio [of "''t''"] a b
  have e: "crowd_level (mockCrowdData ''t'' ! 0)
      = spec_band_of_ratio (occupancy_ratio (mockCrowdData ''t'' ! 0))"
    by blast
  from c e have f: "spec_band_of_ratio (occupancy_ratio (mockCrowdData ''t'' ! 0)) = High"
    by metis
  from a b c d f show ?thesis by blast
qed

text \<open>
  Claim C2. Over every pair of zone records the dashboard holds, the crowd level is
  monotone in the occupancy ratio: a ratio that is not larger comes with a level that is
  not higher, in the order Low < Medium < High < Critical.
\<close>

theorem level_monotone_in_ratio:
  "\<forall>cd \<in> set (crowdData_values now). \<forall>z1 \<in> set cd. \<forall>z2 \<in> set cd.
     occupancy_ratio z1 \<le> occupancy_ratio z2 \<longrightarrow>
     level_rank (crowd_level z1) \<le> level_rank (crowd_level z2)"
  by (simp add: crowdData_values_def mockCrowdData_def occupancy_ratio_def)

theorem level_monotone_in_ratio_witness:
  "mockCrowdData ''t'' \<in> set (crowdData_values ''t'')
   \<and> mockCrowdData ''t'' ! 3 \<in> set (mockCrowdData ''t'')
   \<and> mockCrowdData ''t'' ! 0 \<in> set (mockCrowdData ''t'')
   \<and> occupancy_ratio (mockCrowdData ''t'' ! 3) \<le> occupancy_ratio (mockCrowdData ''t'' ! 0)
   \<and> level_rank (crowd_level (mockCrowdData ''t'' ! 3))
       \<le> level_rank (crowd_level (mockCrowdData ''t'' ! 0))
   \<and> crowd_level (mockCrowdData ''t'' ! 3) = Low
   \<and> crowd_level (mockCrowdData ''t'' ! 0) = High"
proof -
  have a: "mockCrowdData ''t'' \<in> set (crowdData_values ''t'')"
    by (simp add: crowdData_values_def)
  have b: "mockCrowdData ''t'' ! 3 \<in> set (mockCrowdData ''t'')"
    by (simp add: mockCrowdData_def)
  have c: "mockCrowdData ''t'' ! 0 \<in> set (mockCrowdData ''t'')"
    by (simp add: mockCrowdData_def)
  have d: "occupancy_ratio (mockCrowdData ''t'' ! 3) \<le> occupancy_ratio (mockCrowdData ''t'' ! 0)"
    by (simp add: mockCrowdData_def occupancy_ratio_def)
  have e: "crowd_level (mockCrowdData ''t'' ! 3) = Low \<and> crowd_level (mockCrowdData ''t'' ! 0) = High"
    by (simp add: mockCrowdData_def)
  from level_monotone_in_ratio [of "''t''"] a b c d
  have "level_rank (crowd_level (mockCrowdData ''t'' ! 3))
      \<le> level_rank (crowd_level (mockCrowdData ''t'' ! 0))"
    by blast
  with a b c d e show ?thesis by blast
qed

section \<open>Consumers of the crowd level\<close>

text \<open>
  Claim C3. The map tile of a zone is to carry the styling of the zone's own level. The
  conditional of the tile has no case for Critical: a zone at Critical gets the class
  of Low, and no pulse frame, while the badge function \<open>getCrowdLevelColor\<close> gives
  each of the four levels a class of its own.
\<close>

theorem critical_tile_styled_as_low:
  "heatmap_class (zone \<lparr> crowd_level := Critical \<rparr>) = ''heatmap-low border-green-300''
   \<and> heatmap_class (zone \<lparr> crowd_level := Critical \<rparr>) = heatmap_class (zone \<lparr> crowd_level := Low \<rparr>)
   \<and> \<not> pulse_shown (zone \<lparr> crowd_level := Critical \<rparr>)
   \<and> badge_class (zone \<lparr> crowd_level := Critical \<rparr>) = ''bg-red-100 text-red-800 border-red-200''
   \<and> badge_class (zone \<lparr> crowd_level := Critical \<rparr>) \<noteq> badge_class (zone \<lparr> crowd_level := Low \<rparr>)
   \<and> map_tiles [zone \<lparr> crowd_level := Critical \<rparr>]
       = [(''heatmap-low border-green-300'', ''bg-red-100 text-red-800 border-red-200'', False)]"
  by (simp add: map_tiles_def heatmap_class_def pulse_shown_def badge_class_def
      getCrowdLevelColor_def)

section \<open>Route values\<close>

text \<open>
  Claim C7, as stated, fails on the first route the dashboard holds: the object has
  three number members, so none is left for a crowd-exposure integral.
\<close>

theorem route_shape_counterexample:
  "\<not> spec_route_shape (route_members (mockRoutes ! 0))"
  by (simp add: spec_route_shape_def route_members_def number_members_def
      sequence_members_def mockRoutes_def)

text \<open>
  Claim C7, amended. Every route value holds exactly the members id, name, type,
  distance, estimated_time, safety_score, features and current_traffic. Its numbers are
  the total distance, the total estimated time and the safety score; its only sequence
  is the list of feature labels, and no label of a route the dashboard holds is the id
  of a zone it holds. It has no sequence of zone or segment ids and no crowd-exposure
  integral.
\<close>

theorem route_members_are:
  "map fst (route_members r) =
     [''id'', ''name'', ''type'', ''distance'', ''estimated_time'', ''safety_score'',
      ''features'', ''current_traffic'']
   \<and> map_of (route_members r) ''distance'' = Some (Number (distance r))
   \<and> map_of (route_members r) ''estimated_time'' = Some (Number (estimated_time r))
   \<and> map_of (route_members r) ''safety_score'' = Some (Number (safety_score_r r))
   \<and> number_members (route_members r) = [''distance'', ''estimated_time'', ''safety_score'']
   \<and> sequence_members (route_members r) = [''features'']
   \<and> map_of (route_members r) ''features'' = Some (TextList (features r))
   \<and> (\<forall>held \<in> set mockRoutes. \<forall>label \<in> set (features held).
         label \<notin> set (map zone_id (mockCrowdData now)))"
  by (simp add: route_members_def number_members_def sequence_members_def mockRoutes_def
      mockCrowdData_def)

theorem route_members_are_witness:
  "mockRoutes ! 0 \<in> set mockRoutes
   \<and> ''Shade Coverage'' \<in> set (features (mockRoutes ! 0))
   \<and> ''Shade Coverage'' \<notin> set (map zone_id (mockCrowdData ''t''))
   \<and> map zone_id (mockCrowdData ''t'') = [''1'', ''2'', ''3'', ''4'', ''5'']
   \<and> number_members (route_members (mockRoutes ! 0))
       = [''distance'', ''estimated_time'', ''safety_score'']"
proof -
  have a: "mockRoutes ! 0 \<in> set mockRoutes"
    by (simp add: mockRoutes_def)
  have b: "''Shade Coverage'' \<in> set (features (mockRoutes ! 0))"
    by (simp add: mockRoutes_def)
  note t = route_members_are [of "mockRoutes ! 0" "''t''"]
  from t a b have c: "''Shade Coverage'' \<notin> set (map zone_id (mockCrowdData ''t''))"
    by blast
  from t have d: "number_members (route_members (mockRoutes ! 0))
      = [''distance'', ''estimated_time'', ''safety_score'']"
    by blast
  have e: "map zone_id (mockCrowdData ''t'') = [''1'', ''2'', ''3'', ''4'', ''5'']"
    by (simp add: mockCrowdData_def)
  from a b c d e show ?thesis by blast
qed

section \<open>The emergencies counter\<close>

lemma length_filter_active_or_responding:
  "length (filter (\<lambda>e. status e = Active \<or> status e = Responding) es)
     = length (filter (\<lambda>e. status e = Active) es)
     + length (filter (\<lambda>e. status e = Responding) es)"
  by (induction es) auto

text \<open>
  Claim C10. The counter is the number of emergencies whose status is Active. An
  emergency that is Responding is shown in the alert banner, which lists the Active and
  the Responding ones, and adds nothing to the counter.
\<close>

theorem emergencies_counter_counts_active_only:
  "emergencies_statistic es = length (filter (\<lambda>e. status e = Active) es)
   \<and> length (alert_banner es)
       = emergencies_statistic es + length (filter (\<lambda>e. status e = Responding) es)
   \<and> (\<forall>e \<in> set es. status e = Responding \<longrightarrow> e \<in> set (alert_banner es))
   \<and> (status e = Responding \<longrightarrow>
        emergencies_statistic (xs @ e # ys) = emergencies_statistic (xs @ ys))"
  by (simp add: emergencies_statistic_def alert_banner_def length_filter_active_or_responding)

theorem emergencies_counter_counts_active_only_witness:
  "mockEmergencies ! 0 \<in> set mockEmergencies
   \<and> status (mockEmergencies ! 0) = Responding
   \<and> mockEmergencies ! 0 \<in> set (alert_banner mockEmergencies)
   \<and> emergencies_statistic mockEmergencies = emergencies_statistic [mockEmergencies ! 1]
   \<and> emergencies_statistic mockEmergencies = 1
   \<and> length (alert_banner mockEmergencies) = 2"
proof -
  have a: "mockEmergencies ! 0 \<in> set mockEmergencies"
    by (simp add: mockEmergencies_def)
  have b: "status (mockEmergencies ! 0) = Responding"
    by (simp add: mockEmergencies_def)
  have c: "mockEmergencies = [] @ (mockEmergencies ! 0) # [mockEmergencies ! 1]"
    by (simp add: mockEmergencies_def)
  note t = emergencies_counter_counts_active_only
    [of mockEmergencies "mockEmergencies ! 0" "[]" "[mockEmergencies ! 1]"]
  from t a b have d: "mockEmergencies ! 0 \<in> set (alert_banner mockEmergencies)"
    by blast
  from t b have "emergencies_statistic ([] @ (mockEmergencies ! 0) # [mockEmergencies ! 1])
      = emergencies_statistic ([] @ [mockEmergencies ! 1])"
    by blast
  with c have e: "emergencies_statistic mockEmergencies = emergencies_statistic [mockEmergencies ! 1]"
    by simp
  have f: "emergencies_statistic [mockEmergencies ! 1] = 1"
    by (simp add: emergencies_statistic_def mockEmergencies_def)
  have g: "length (alert_banner mockEmergencies) = 2"
    by (simp add: alert_banner_def mockEmergencies_def)
  from a b d e f g show ?thesis by simp
qed

section \<open>The simulation progress\<close>

lemma initial_progress_ok: "progress_ok initial_simulation"
  by (simp add: progress_ok_def initial_simulation_def)

lemma interval_tick_progress_ok: "progress_ok s \<Longrightarrow> progress_ok (interval_tick h s)"
  by (auto simp: progress_ok_def interval_tick_def)

lemma do_call_progress_ok: "progress_ok s \<Longrightarrow> progress_ok (do_call c s)"
  by (cases c) (simp_all add: interval_tick_progress_ok, simp_all add: progress_ok_def startSimulation_def resetSimulation_def)

lemma do_calls_progress_ok: "progress_ok s \<Longrightarrow> progress_ok (do_calls cs s)"
  by (induction cs arbitrary: s) (simp_all add: do_call_progress_ok)

lemma do_event_progress_ok: "progress_ok s \<Longrightarrow> progress_ok (do_event e s)"
  by (cases e) (simp_all add: interval_tick_progress_ok, simp_all add: progress_ok_def click_start_def click_reset_def startSimulation_def resetSimulation_def)

lemma do_events_progress_ok: "progress_ok s \<Longrightarrow> progress_ok (do_events es s)"
  by (induction es arbitrary: s) (simp_all add: do_event_progress_ok)

text \<open>
  Claim C8. From the initial state, every sequence of calls of \<open>startSimulation\<close>,
  \<open>resetSimulation\<close> and timer ticks, and every sequence of clicks and ticks, leaves
  the progress between 0 and 100. Starting sets it to 0 with the running flag set; a
  tick of a live timer adds 2 while the progress is below 100 and changes nothing else;
  a tick that finds the progress at 100 or above leaves it at 100, clears its timer and
  the running flag; a cleared timer does nothing; reset sets the progress to 0 and
  clears the running flag.
\<close>

theorem simulation_progress_in_range:
  "0 \<le> simulationProgress (do_calls cs initial_simulation)
   \<and> simulationProgress (do_calls cs initial_simulation) \<le> 100
   \<and> 0 \<le> simulationProgress (do_events es initial_simulation)
   \<and> simulationProgress (do_events es initial_simulation) \<le> 100
   \<and> simulationProgress (startSimulation s) = 0
   \<and> isSimulationRunning (startSimulation s)
   \<and> (h \<in> set (activeIntervals s) \<and> simulationProgress s < 100 \<longrightarrow>
        simulationProgress (interval_tick h s) = simulationProgress s + 2
        \<and> activeIntervals (interval_tick h s) = activeIntervals s
        \<and> isSimulationRunning (interval_tick h s) = isSimulationRunning s)
   \<and> (h \<in> set (activeIntervals s) \<and> 100 \<le> simulationProgress s \<longrightarrow>
        simulationProgress (interval_tick h s) = 100
        \<and> h \<notin> set (activeIntervals (interval_tick h s))
        \<and> \<not> isSimulationRunning (interval_tick h s))
   \<and> (h \<notin> set (activeIntervals s) \<longrightarrow> interval_tick h s = s)
   \<and> simulationProgress (resetSimulation s) = 0
   \<and> \<not> isSimulationRunning (resetSimulation s)"
proof -
  have "progress_ok (do_calls cs initial_simulation)"
    by (rule do_calls_progress_ok [OF initial_progress_ok])
  then have calls: "0 \<le> simulationProgress (do_calls cs initial_simulation)
      \<and> simulationProgress (do_calls cs initial_simulation) \<le> 100"
    by (simp add: progress_ok_def)
  have "progress_ok (do_events es initial_simulation)"
    by (rule do_events_progress_ok [OF initial_progress_ok])
  then have events: "0 \<le> simulationProgress (do_events es initial_simulation)
      \<and> simulationProgress (do_events es initial_simulation) \<le> 100"
    by (simp add: progress_ok_def)
  have start: "simulationProgress (startSimulation s) = 0 \<and> isSimulationRunning (startSimulation s)"
    by (simp add: startSimulation_def)
  have tick: "(h \<in> set (activeIntervals s) \<and> simulationProgress s < 100 \<longrightarrow>
        simulationProgress (interval_tick h s) = simulationProgress s + 2
        \<and> activeIntervals (interval_tick h s) = activeIntervals s
        \<and> isSimulationRunning (interval_tick h s) = isSimulationRunning s)
   \<and> (h \<in> set (activeIntervals s) \<and> 100 \<le> simulationProgress s \<longrightarrow>
        simulationProgress (interval_tick h s) = 100
        \<and> h \<notin> set (activeIntervals (interval_tick h s))
        \<and> \<not> isSimulationRunning (interval_tick h s))
   \<and> (h \<notin> set (activeIntervals s) \<longrightarrow> interval_tick h s = s)"
    by (simp add: interval_tick_def)
  have reset: "simulationProgress (resetSimulation s) = 0 \<and> \<not> isSimulationRunning (resetSimulation s)"
    by (simp add: resetSimulation_def)
  from calls events start tick reset show ?thesis by blast
qed

theorem simulation_progress_in_range_witness:
  "0 \<in> set (activeIntervals (startSimulation initial_simulation))
   \<and> simulationProgress (startSimulation initial_simulation) < 100
   \<and> simulationProgress (interval_tick 0 (startSimulation initial_simulation)) = 2
   \<and> 0 \<in> set (activeIntervals (do_calls (StartSimulation # replicate 50 (Tick 0)) initial_simulation))
   \<and> 100 \<le> simulationProgress (do_calls (StartSimulation # replicate 50 (Tick 0)) initial_simulation)
   \<and> isSimulationRunning (do_calls (StartSimulation # replicate 50 (Tick 0)) initial_simulation)
   \<and> simulationProgress (interval_tick 0
        (do_calls (StartSimulation # replicate 50 (Tick 0)) initial_simulation)) = 100
   \<and> \<not> isSimulationRunning (interval_tick 0
        (do_calls (StartSimulation # replicate 50 (Tick 0)) initial_simulation))
   \<and> 0 \<notin> set (activeIntervals (interval_tick 0
        (do_calls (StartSimulation # replicate 50 (Tick 0)) initial_simulation)))
   \<and> 7 \<notin> set (activeIntervals (startSimulation initial_simulation))
   \<and> interval_tick 7 (startSimulation initial_simulation) = startSimulation initial_simulation"
proof -
  let ?s = "startSimulation initial_simulation"
  let ?t = "do_calls (StartSimulation # replicate 50 (Tick 0)) initial_simulation"
  have s: "?s = \<lparr> selectedScenario = '''', simulationProgress = 0, isSimulationRunning = True,
      activeIntervals = [0], nextHandle = 1 \<rparr>"
    by (simp add: initial_simulation_def startSimulation_def)
  have t: "?t = \<lparr> selectedScenario = '''', simulationProgress = 100, isSimulationRunning = True,
      activeIntervals = [0], nextHandle = 1 \<rparr>"
    by (simp add: eval_nat_numeral initial_simulation_def startSimulation_def interval_tick_def)
  have a: "0 \<in> set (activeIntervals ?s) \<and> simulationProgress ?s < 100
      \<and> simulationProgress ?s + 2 = 2 \<and> 7 \<notin> set (activeIntervals ?s)"
    unfolding s by simp
  have b: "0 \<in> set (activeIntervals ?t) \<and> 100 \<le> simulationProgress ?t \<and> isSimulationRunning ?t"
    unfolding t by simp
  from simulation_progress_in_range [of "[]" "[]" ?s 0] a
  have c: "simulationProgress (interval_tick 0 ?s) = 2" by simp
  from simulation_progress_in_range [of "[]" "[]" ?t 0] b
  have d: "simulationProgress (interval_tick 0 ?t) = 100
      \<and> 0 \<notin> set (activeIntervals (interval_tick 0 ?t))
      \<and> \<not> isSimulationRunning (interval_tick 0 ?t)"
    by blast
  from simulation_progress_in_range [of "[]" "[]" ?s 7] a
  have e: "interval_tick 7 ?s = ?s" by blast
  from a b c d e show ?thesis by blast
qed

section \<open>Progress and the selected scenario\<close>

lemma do_event_same_but_scenario:
  "same_but_scenario s t \<Longrightarrow> same_but_scenario (do_event e s) (do_event e t)"
  by (cases e)
     (auto simp: same_but_scenario_def click_start_def click_reset_def startSimulation_def
        resetSimulation_def interval_tick_def)

lemma progress_trace_same_but_scenario:
  "same_but_scenario s t \<Longrightarrow> progress_trace es s = progress_trace es t"
proof (induction es arbitrary: s t)
  case Nil
  then show ?case by (simp add: same_but_scenario_def)
next
  case (Cons e es)
  from Cons.prems have "same_but_scenario (do_event e s) (do_event e t)"
    by (rule do_event_same_but_scenario)
  then have "progress_trace es (do_event e s) = progress_trace es (do_event e t)"
    by (rule Cons.IH)
  with Cons.prems show ?case by (simp add: same_but_scenario_def)
qed

lemma scenario_id_not_empty: "a \<in> set simulationScenarios \<Longrightarrow> id_s a \<noteq> ''''"
  by (auto simp: simulationScenarios_def)

lemma selected_same_but_scenario:
  "a \<noteq> '''' \<Longrightarrow> b \<noteq> '''' \<Longrightarrow> same_but_scenario (setSelectedScenario a s) (setSelectedScenario b s)"
  by (simp add: same_but_scenario_def setSelectedScenario_def)

lemma ticks_progress:
  "progress_ok s \<Longrightarrow> h \<in> set (activeIntervals s) \<or> simulationProgress s = 100 \<Longrightarrow>
   simulationProgress ((interval_tick h ^^ n) s) = min (simulationProgress s + 2 * int n) 100
   \<and> (h \<in> set (activeIntervals ((interval_tick h ^^ n) s)) \<or> simulationProgress ((interval_tick h ^^ n) s) = 100)
   \<and> progress_ok ((interval_tick h ^^ n) s)"
proof (induction n)
  case 0
  then show ?case by (simp add: progress_ok_def)
next
  case (Suc n)
  let ?t = "(interval_tick h ^^ n) s"
  note ih = Suc.IH [OF Suc.prems]
  from ih have a: "simulationProgress ?t = min (simulationProgress s + 2 * int n) 100"
    by (rule conjunct1)
  from ih have b: "h \<in> set (activeIntervals ?t) \<or> simulationProgress ?t = 100" by blast
  from ih have c: "progress_ok ?t" by blast
  have d: "progress_ok (interval_tick h ?t)"
    using c by (rule interval_tick_progress_ok)
  have e: "simulationProgress (interval_tick h ?t) = min (simulationProgress ?t + 2) 100"
    using b c by (auto simp: interval_tick_def progress_ok_def)
  have f: "h \<in> set (activeIntervals (interval_tick h ?t)) \<or> simulationProgress (interval_tick h ?t) = 100"
    using b c by (auto simp: interval_tick_def progress_ok_def)
  from a d e f show ?case by (auto simp: min_def)
qed

lemma started_ticks_progress:
  "simulationProgress ((interval_tick (nextHandle s) ^^ n) (startSimulation s)) = min (2 * int n) 100"
proof -
  have a: "progress_ok (startSimulation s)"
    by (simp add: progress_ok_def startSimulation_def)
  have b: "nextHandle s \<in> set (activeIntervals (startSimulation s))"
    by (simp add: startSimulation_def)
  have c: "simulationProgress (startSimulation s) = 0"
    by (simp add: startSimulation_def)
  from ticks_progress [of "startSimulation s" "nextHandle s" n] a b c show ?thesis by simp
qed

text \<open>
  Claim C9. For any two scenarios of the table, whatever their durations, the same
  clicks and ticks show the same progress values, and a started simulation shows
  \<open>min (2 * n) 100\<close> after \<open>n\<close> ticks of its timer: it is at 100 exactly from the
  50th tick on, for every scenario.
\<close>

theorem progress_independent_of_scenario:
  "\<forall>a \<in> set simulationScenarios. \<forall>b \<in> set simulationScenarios.
     progress_trace es (setSelectedScenario (id_s a) s)
       = progress_trace es (setSelectedScenario (id_s b) s)
     \<and> simulationProgress ((interval_tick (nextHandle s) ^^ n)
          (startSimulation (setSelectedScenario (id_s a) s))) = min (2 * int n) 100
     \<and> (simulationProgress ((interval_tick (nextHandle s) ^^ n)
          (startSimulation (setSelectedScenario (id_s a) s))) = 100) = (50 \<le> n)"
proof (intro ballI)
  fix a b
  assume a: "a \<in> set simulationScenarios" and b: "b \<in> set simulationScenarios"
  let ?s = "setSelectedScenario (id_s a) s"
  have "same_but_scenario ?s (setSelectedScenario (id_s b) s)"
    using a b by (simp add: selected_same_but_scenario scenario_id_not_empty)
  then have trace: "progress_trace es ?s = progress_trace es (setSelectedScenario (id_s b) s)"
    by (rule progress_trace_same_but_scenario)
  have h: "nextHandle ?s = nextHandle s"
    by (simp add: setSelectedScenario_def)
  have ticks: "simulationProgress ((interval_tick (nextHandle s) ^^ n) (startSimulation ?s))
      = min (2 * int n) 100"
    using started_ticks_progress [where s = ?s and n = n] h by simp
  have "(min (2 * int n) 100 = 100) = (50 \<le> n)" by auto
  with ticks have "(simulationProgress ((interval_tick (nextHandle s) ^^ n) (startSimulation ?s)) = 100)
      = (50 \<le> n)"
    by simp
  with trace ticks show "progress_trace es ?s = progress_trace es (setSelectedScenario (id_s b) s)
     \<and> simulationProgress ((interval_tick (nextHandle s) ^^ n) (startSimulation ?s)) = min (2 * int n) 100
     \<and> (simulationProgress ((interval_tick (nextHandle s) ^^ n) (startSimulation ?s)) = 100) = (50 \<le> n)"
    by blast
qed

theorem progress_independent_of_scenario_witness:
  "simulationScenarios ! 0 \<in> set simulationScenarios
   \<and> simulationScenarios ! 1 \<in> set simulationScenarios
   \<and> duration (simulationScenarios ! 0) = 30
   \<and> duration (simulationScenarios ! 1) = 45
   \<and> progress_trace [ClickStart, TimerFires 0, TimerFires 0]
        (setSelectedScenario (id_s (simulationScenarios ! 0)) initial_simulation)
     = progress_trace [ClickStart, TimerFires 0, TimerFires 0]
        (setSelectedScenario (id_s (simulationScenarios ! 1)) initial_simulation)
   \<and> progress_trace [ClickStart, TimerFires 0, TimerFires 0]
        (setSelectedScenario (id_s (simulationScenarios ! 1)) initial_simulation) = [0, 0, 2, 4]
   \<and> simulationProgress ((interval_tick (nextHandle initial_simulation) ^^ 50)
        (startSimulation (setSelectedScenario (id_s (simulationScenarios ! 0)) initial_simulation))) = 100"
proof -
  have a: "simulationScenarios ! 0 \<in> set simulationScenarios"
    by (simp add: simulationScenarios_def)
  have b: "simulationScenarios ! 1 \<in> set simulationScenarios"
    by (simp add: simulationScenarios_def)
  have c: "duration (simulationScenarios ! 0) = 30 \<and> duration (simulationScenarios ! 1) = 45"
    by (simp add: simulationScenarios_def)
  note t = progress_independent_of_scenario
    [of "[ClickStart, TimerFires 0, TimerFires 0]" initial_simulation 50]
  from t a b have d: "progress_trace [ClickStart, TimerFires 0, TimerFires 0]
        (setSelectedScenario (id_s (simulationScenarios ! 0)) initial_simulation)
     = progress_trace [ClickStart, TimerFires 0, TimerFires 0]
        (setSelectedScenario (id_s (simulationScenarios ! 1)) initial_simulation)"
    by blast
  from t a b have e: "simulationProgress ((interval_tick (nextHandle initial_simulation) ^^ 50)
        (startSimulation (setSelectedScenario (id_s (simulationScenarios ! 0)) initial_simulation)))
      = min (2 * int 50) 100"
    by blast
  have f: "progress_trace [ClickStart, TimerFires 0, TimerFires 0]
        (setSelectedScenario (id_s (simulationScenarios ! 1)) initial_simulation) = [0, 0, 2, 4]"
    by (simp add: simulationScenarios_def setSelectedScenario_def initial_simulation_def
        click_start_def startSimulation_def interval_tick_def)
  from e have g: "simulationProgress ((interval_tick (nextHandle initial_simulation) ^^ 50)
        (startSimulation (setSelectedScenario (id_s (simulationScenarios ! 0)) initial_simulation))) = 100"
    by simp
  from a b c d f g show ?thesis by blast
qed

section \<open>Stale occupancy updates\<close>

text \<open>
  Claim C5. An update whose timestamp is less than or equal to the timestamp stored for
  its zone is a no-op signalled as \<open>StaleData\<close>: the store after the call is the store
  before it, so the zone still holds the record it held.
\<close>

theorem stale_update_is_noop:
  "st z = Some stored \<and> ts \<le> timestamp_o stored \<longrightarrow>
     applyUpdate capacity_of st z c src ts = (Some StaleData, st)
     \<and> snd (applyUpdate capacity_of st z c src ts) z = Some stored"
  by (simp add: applyUpdate_def)

theorem stale_update_is_noop_witness:
  "[''1'' \<mapsto> updated_record Low 1000 ''1'' 200 Measured 10] ''1''
      = Some (updated_record Low 1000 ''1'' 200 Measured 10)
   \<and> (10::int) \<le> timestamp_o (updated_record Low 1000 ''1'' 200 Measured 10)
   \<and> applyUpdate (\<lambda>z. 1000) [''1'' \<mapsto> updated_record Low 1000 ''1'' 200 Measured 10]
        ''1'' 950 Measured 10
      = (Some StaleData, [''1'' \<mapsto> updated_record Low 1000 ''1'' 200 Measured 10])
   \<and> fst (applyUpdate (\<lambda>z. 1000) [''1'' \<mapsto> updated_record Low 1000 ''1'' 200 Measured 10]
        ''1'' 950 Measured 11) = None
   \<and> map_option level (snd (applyUpdate (\<lambda>z. 1000)
        [''1'' \<mapsto> updated_record Low 1000 ''1'' 200 Measured 10] ''1'' 950 Measured 11) ''1'')
      = Some High"
proof -
  let ?r = "updated_record Low 1000 ''1'' 200 Measured 10"
  have a: "[''1'' \<mapsto> ?r] ''1'' = Some ?r" by simp
  have b: "(10::int) \<le> timestamp_o ?r" by (simp add: updated_record_def)
  from stale_update_is_noop [of "[''1'' \<mapsto> ?r]" "''1''" ?r 10 "\<lambda>z. 1000" 950 Measured] a b
  have c: "applyUpdate (\<lambda>z. 1000) [''1'' \<mapsto> ?r] ''1'' 950 Measured 10 = (Some StaleData, [''1'' \<mapsto> ?r])"
    by blast
  have d: "fst (applyUpdate (\<lambda>z. 1000) [''1'' \<mapsto> ?r] ''1'' 950 Measured 11) = None"
    by (simp add: applyUpdate_def updated_record_def)
  have e: "map_option level (snd (applyUpdate (\<lambda>z. 1000) [''1'' \<mapsto> ?r] ''1'' 950 Measured 11) ''1'')
      = Some High"
    by (simp add: applyUpdate_def updated_record_def hysteretic_level_def spec_band_of_ratio_def)
  from a b c d e show ?thesis by blast
qed

section \<open>Emergency lifecycle\<close>

lemma setStatus_rank: "lifecycle_rank (emergencyStatus e) \<le> lifecycle_rank (emergencyStatus (snd (setStatus e new ts)))"
  by (simp add: setStatus_def)

lemma setStatuses_rank: "lifecycle_rank (emergencyStatus e) \<le> lifecycle_rank (emergencyStatus (setStatuses e changes))"
proof (induction changes arbitrary: e)
  case Nil
  show ?case by simp
next
  case (Cons ch changes)
  obtain new ts where ch: "ch = (new, ts)" by (cases ch)
  have "lifecycle_rank (emergencyStatus e) \<le> lifecycle_rank (emergencyStatus (snd (setStatus e new ts)))"
    by (rule setStatus_rank)
  also have "\<dots> \<le> lifecycle_rank (emergencyStatus (setStatuses (snd (setStatus e new ts)) changes))"
    by (rule Cons.IH)
  finally show ?case by (simp add: ch)
qed

lemma rank_top: "lifecycle_rank Resolved \<le> lifecycle_rank s \<Longrightarrow> s = Resolved"
  by (cases s) simp_all

text \<open>
  Claim C4. The status of an emergency is one of the three values Reported (\<open>Active\<close>),
  Responding, Resolved. A status change never moves back in the lifecycle order, and
  one that changes the status moves strictly forward, over single changes and over
  sequences of them. Resolved is terminal: a Resolved emergency stays Resolved, and an
  attempt to set it back to Reported is rejected as \<open>InvalidInput\<close> and leaves the
  record as it was, as every rejected change does.
\<close>

theorem emergency_status_forward_only:
  "(emergencyStatus e = Active \<or> emergencyStatus e = Responding \<or> emergencyStatus e = Resolved)
   \<and> lifecycle_rank (emergencyStatus e) \<le> lifecycle_rank (emergencyStatus (snd (setStatus e new ts)))
   \<and> (emergencyStatus (snd (setStatus e new ts)) \<noteq> emergencyStatus e \<longrightarrow>
        lifecycle_rank (emergencyStatus e) < lifecycle_rank (emergencyStatus (snd (setStatus e new ts))))
   \<and> lifecycle_rank (emergencyStatus e) \<le> lifecycle_rank (emergencyStatus (setStatuses e changes))
   \<and> (emergencyStatus e = Resolved \<longrightarrow> emergencyStatus (setStatuses e changes) = Resolved)
   \<and> (emergencyStatus e = Resolved \<longrightarrow> setStatus e Active ts = (Some InvalidInput, e))
   \<and> (fst (setStatus e new ts) = Some InvalidInput \<longrightarrow>
        lifecycle_rank new < lifecycle_rank (emergencyStatus e) \<and> snd (setStatus e new ts) = e)"
proof -
  have a: "emergencyStatus e = Active \<or> emergencyStatus e = Responding \<or> emergencyStatus e = Resolved"
    by (cases "emergencyStatus e") simp_all
  have b: "lifecycle_rank (emergencyStatus e) \<le> lifecycle_rank (emergencyStatus (snd (setStatus e new ts)))"
    by (rule setStatus_rank)
  have c: "emergencyStatus (snd (setStatus e new ts)) \<noteq> emergencyStatus e \<longrightarrow>
        lifecycle_rank (emergencyStatus e) < lifecycle_rank (emergencyStatus (snd (setStatus e new ts)))"
    by (cases new; cases "emergencyStatus e") (simp_all add: setStatus_def)
  have d: "lifecycle_rank (emergencyStatus e) \<le> lifecycle_rank (emergencyStatus (setStatuses e changes))"
    by (rule setStatuses_rank)
  have e: "emergencyStatus e = Resolved \<longrightarrow> emergencyStatus (setStatuses e changes) = Resolved"
    using d rank_top [of "emergencyStatus (setStatuses e changes)"] by auto
  have f: "emergencyStatus e = Resolved \<longrightarrow> setStatus e Active ts = (Some InvalidInput, e)"
    by (simp add: setStatus_def)
  have g: "fst (setStatus e new ts) = Some InvalidInput \<longrightarrow>
        lifecycle_rank new < lifecycle_rank (emergencyStatus e) \<and> snd (setStatus e new ts) = e"
    by (simp add: setStatus_def)
  from a b c d e f g show ?thesis by blast
qed

theorem emergency_status_forward_only_witness:
  "emergencyStatus (snd (setStatus
      \<lparr> emergencyId = 1, emergencyType = medical, locationZoneId = ''3'',
        emergencySeverity = SevHigh, emergencyStatus = Active, reportedAt = 10,
        resolvedAt = None \<rparr> Resolved 20)) = Resolved
   \<and> resolvedAt (snd (setStatus
      \<lparr> emergencyId = 1, emergencyType = medical, locationZoneId = ''3'',
        emergencySeverity = SevHigh, emergencyStatus = Active, reportedAt = 10,
        resolvedAt = None \<rparr> Resolved 20)) = Some 20
   \<and> setStatus (snd (setStatus
      \<lparr> emergencyId = 1, emergencyType = medical, locationZoneId = ''3'',
        emergencySeverity = SevHigh, emergencyStatus = Active, reportedAt = 10,
        resolvedAt = None \<rparr> Resolved 20)) Active 30
     = (Some InvalidInput, snd (setStatus
      \<lparr> emergencyId = 1, emergencyType = medical, locationZoneId = ''3'',
        emergencySeverity = SevHigh, emergencyStatus = Active, reportedAt = 10,
        resolvedAt = None \<rparr> Resolved 20))"
proof -
  let ?e = "\<lparr> emergencyId = 1, emergencyType = medical, locationZoneId = ''3'',
        emergencySeverity = SevHigh, emergencyStatus = Active, reportedAt = 10,
        resolvedAt = None \<rparr>"
  let ?r = "snd (setStatus ?e Resolved 20)"
  have a: "emergencyStatus ?r = Resolved" by (simp add: setStatus_def)
  have b: "resolvedAt ?r = Some 20" by (simp add: setStatus_def)
  from emergency_status_forward_only [of ?r Active 30 "[]"] a
  have c: "setStatus ?r Active 30 = (Some InvalidInput, ?r)" by blast
  from a b c show ?thesis by blast
qed

section \<open>Canonical routes\<close>

lemma simple_paths_arrived: "simple_paths adj zs dst dst = [[dst]]"
  by (subst simple_paths.simps) simp

lemma simple_paths_onward:
  "cur \<noteq> dst \<Longrightarrow> simple_paths adj zs cur dst =
     concat (map (\<lambda>n. map ((#) cur) (simple_paths adj (removeAll n zs) n dst)) (filter (adj cur) zs))"
  by (subst simple_paths.simps) simp

lemma simple_paths_shape:
  "p \<in> set (simple_paths adj zs cur dst) \<Longrightarrow>
     p \<noteq> [] \<and> hd p = cur \<and> last p = dst \<and> set p \<subseteq> insert cur (set zs)
     \<and> (cur \<notin> set zs \<longrightarrow> distinct p)"
proof (induction adj zs cur dst arbitrary: p rule: simple_paths.induct)
  case (1 adj zs cur dst)
  show ?case
  proof (cases "cur = dst")
    case True
    with "1.prems" show ?thesis by (simp add: simple_paths_arrived)
  next
    case False
    with "1.prems" obtain n q where n: "n \<in> set zs" "adj cur n"
      and q: "q \<in> set (simple_paths adj (removeAll n zs) n dst)" and p: "p = cur # q"
      by (auto simp: simple_paths_onward)
    from "1.IH" [OF False _ q] n
    have ih: "q \<noteq> [] \<and> hd q = n \<and> last q = dst \<and> set q \<subseteq> insert n (set (removeAll n zs))
      \<and> (n \<notin> set (removeAll n zs) \<longrightarrow> distinct q)"
      by simp
    then have dq: "distinct q" by simp
    from ih n have sq: "set q \<subseteq> set zs" by auto
    from ih p sq dq show ?thesis by auto
  qed
qed

lemma simple_paths_set_cong:
  "set zs = set zs' \<Longrightarrow> set (simple_paths adj zs cur dst) = set (simple_paths adj zs' cur dst)"
proof (induction adj zs cur dst arbitrary: zs' rule: simple_paths.induct)
  case (1 adj zs cur dst)
  show ?case
  proof (cases "cur = dst")
    case True
    then show ?thesis
      by (simp add: simple_paths_arrived)
  next
    case False
    have step: "set (simple_paths adj (removeAll n zs) n dst) = set (simple_paths adj (removeAll n zs') n dst)"
      if "n \<in> set zs" "adj cur n" for n
      using "1.IH" [OF False, of n "removeAll n zs'"] that "1.prems" by simp
    have "set (simple_paths adj zs cur dst)
        = (\<Union>n \<in> {n \<in> set zs. adj cur n}. (#) cur ` set (simple_paths adj (removeAll n zs) n dst))"
      using False by (auto simp: simple_paths_onward)
    also have "\<dots> = (\<Union>n \<in> {n \<in> set zs. adj cur n}. (#) cur ` set (simple_paths adj (removeAll n zs') n dst))"
      using step by auto
    also have "\<dots> = (\<Union>n \<in> {n \<in> set zs'. adj cur n}. (#) cur ` set (simple_paths adj (removeAll n zs') n dst))"
      using "1.prems" by simp
    also have "\<dots> = set (simple_paths adj zs' cur dst)"
      using False by (auto simp: simple_paths_onward)
    finally show ?thesis .
  qed
qed

lemma hop_cost_set_cong:
  "set segs = set segs' \<Longrightarrow> hop_cost edge_cost opts segs a b = hop_cost edge_cost opts segs' a b"
proof -
  assume eq: "set segs = set segs'"
  let ?P = "\<lambda>seg. joins seg a b \<and> admissible opts seg"
  have s: "set (filter ?P segs) = set (filter ?P segs')" using eq by simp
  then have "(filter ?P segs = []) = (filter ?P segs' = [])"
    by (metis set_empty)
  with s show ?thesis by (simp add: hop_cost_def Let_def)
qed

lemma route_key_inj: "route_key hc p = route_key hc q \<Longrightarrow> p = q"
  by (simp add: route_key_def)

lemma route_key_less: "(route_key hc p < route_key hc q) = preferred hc p q"
  by (auto simp: route_key_def preferred_def less_prod_def)

lemma arg_min_list_strict:
  assumes "xs \<noteq> []" and "q \<in> set xs" and "q \<noteq> arg_min_list (route_key hc) xs"
  shows "preferred hc (arg_min_list (route_key hc) xs) q"
proof -
  let ?m = "arg_min_list (route_key hc) xs"
  have "route_key hc ?m = Min (route_key hc ` set xs)"
    using assms(1) by (rule f_arg_min_list_f)
  also have "\<dots> \<le> route_key hc q" using assms(2) by simp
  finally have "route_key hc ?m \<le> route_key hc q" .
  moreover have "route_key hc ?m \<noteq> route_key hc q"
    using assms(3) route_key_inj by blast
  ultimately have "route_key hc ?m < route_key hc q" by simp
  then show ?thesis by (simp add: route_key_less)
qed

lemma arg_min_list_set_cong:
  assumes "xs \<noteq> []" and "set xs = set ys"
  shows "arg_min_list (route_key hc) xs = arg_min_list (route_key hc) ys"
proof -
  from assms have ys: "ys \<noteq> []" by auto
  have "route_key hc (arg_min_list (route_key hc) xs) = Min (route_key hc ` set xs)"
    using assms(1) by (rule f_arg_min_list_f)
  moreover have "route_key hc (arg_min_list (route_key hc) ys) = Min (route_key hc ` set ys)"
    using ys by (rule f_arg_min_list_f)
  ultimately have "route_key hc (arg_min_list (route_key hc) xs) = route_key hc (arg_min_list (route_key hc) ys)"
    using assms(2) by simp
  then show ?thesis by (rule route_key_inj)
qed

lemma hop_cost_fun_cong:
  "set segs = set segs' \<Longrightarrow> hop_cost edge_cost opts segs = hop_cost edge_cost opts segs'"
  by (intro ext) (rule hop_cost_set_cong)

lemma candidate_routes_cong:
  assumes "set (zones g') = set (zones g)" and "set (segments g') = set (segments g)"
  shows "set (candidate_routes cm g' snap src dst opts) = set (candidate_routes cm g snap src dst opts)"
proof -
  have hc: "hop_cost (cm snap opts) opts (segments g') = hop_cost (cm snap opts) opts (segments g)"
    using assms(2) by (rule hop_cost_fun_cong)
  have "set (removeAll src (zones g')) = set (removeAll src (zones g))"
    using assms(1) by simp
  then have "set (simple_paths (\<lambda>a b. hop_cost (cm snap opts) opts (segments g) a b \<noteq> None)
               (removeAll src (zones g')) src dst)
      = set (simple_paths (\<lambda>a b. hop_cost (cm snap opts) opts (segments g) a b \<noteq> None)
               (removeAll src (zones g)) src dst)"
    by (rule simple_paths_set_cong)
  then show ?thesis
    unfolding candidate_routes_def hc .
qed

lemma findRoute_found:
  "findRoute cm g snap src dst opts = Inr p \<Longrightarrow>
     candidate_routes cm g snap src dst opts \<noteq> []
     \<and> p = arg_min_list (route_key (hop_cost (cm snap opts) opts (segments g)))
              (candidate_routes cm g snap src dst opts)"
  unfolding findRoute_def by (simp split: if_splits)

lemma findRoute_cong:
  assumes "set (zones g') = set (zones g)" and "set (segments g') = set (segments g)"
  shows "findRoute cm g' snap src dst opts = findRoute cm g snap src dst opts"
proof -
  have hc: "hop_cost (cm snap opts) opts (segments g') = hop_cost (cm snap opts) opts (segments g)"
    using assms(2) by (rule hop_cost_fun_cong)
  have cs: "set (candidate_routes cm g' snap src dst opts) = set (candidate_routes cm g snap src dst opts)"
    using assms by (rule candidate_routes_cong)
  show ?thesis
  proof (cases "candidate_routes cm g' snap src dst opts = []")
    case True
    with cs have "candidate_routes cm g snap src dst opts = []" by simp
    with True show ?thesis unfolding findRoute_def assms(1) by simp
  next
    case False
    with cs have ne: "candidate_routes cm g snap src dst opts \<noteq> []" by auto
    have "arg_min_list (route_key (hop_cost (cm snap opts) opts (segments g)))
            (candidate_routes cm g' snap src dst opts)
        = arg_min_list (route_key (hop_cost (cm snap opts) opts (segments g)))
            (candidate_routes cm g snap src dst opts)"
      using False cs by (rule arg_min_list_set_cong)
    with False ne show ?thesis unfolding findRoute_def assms(1) hc by simp
  qed
qed

lemma findRoute_best:
  assumes r: "findRoute cm g snap src dst opts = Inr p"
  shows "p \<in> set (candidate_routes cm g snap src dst opts)
      \<and> hd p = src \<and> last p = dst \<and> distinct p
      \<and> (\<forall>q \<in> set (candidate_routes cm g snap src dst opts). q \<noteq> p \<longrightarrow>
           preferred (hop_cost (cm snap opts) opts (segments g)) p q)"
proof -
  let ?cs = "candidate_routes cm g snap src dst opts"
  let ?hc = "hop_cost (cm snap opts) opts (segments g)"
  from findRoute_found [OF r] have ne: "?cs \<noteq> []" by (rule conjunct1)
  from findRoute_found [OF r] have p: "p = arg_min_list (route_key ?hc) ?cs" by (rule conjunct2)
  have mem: "p \<in> set ?cs" unfolding p using ne by (rule arg_min_list_in)
  then have "p \<in> set (simple_paths (\<lambda>a b. ?hc a b \<noteq> None) (removeAll src (zones g)) src dst)"
    unfolding candidate_routes_def .
  then have shape: "p \<noteq> [] \<and> hd p = src \<and> last p = dst
      \<and> set p \<subseteq> insert src (set (removeAll src (zones g)))
      \<and> (src \<notin> set (removeAll src (zones g)) \<longrightarrow> distinct p)"
    by (rule simple_paths_shape)
  then have hd: "hd p = src" and last: "last p = dst" and dist: "distinct p" by simp_all
  have best: "\<forall>q \<in> set ?cs. q \<noteq> p \<longrightarrow> preferred ?hc p q"
  proof (intro ballI impI)
    fix q assume q: "q \<in> set ?cs" and "q \<noteq> p"
    then have "q \<noteq> arg_min_list (route_key ?hc) ?cs" unfolding p by simp
    with ne q have "preferred ?hc (arg_min_list (route_key ?hc) ?cs) q"
      by (rule arg_min_list_strict)
    then show "preferred ?hc p q" unfolding p .
  qed
  from mem hd last dist best show ?thesis by (intro conjI)
qed

text \<open>
  Claim C6. The route that \<open>findRoute\<close> returns is determined by the inputs alone. It
  is a candidate route from the source to the destination, and every other candidate
  loses against it under the tie-break rule: it costs more, or costs the same with more
  hops, or costs the same with as many hops and a lexicographically larger sequence of
  zone ids. So there is a single canonical answer, and it does not depend on the order
  in which the zones and segments of the graph are stored or visited.
\<close>

theorem findRoute_canonical:
  "(findRoute cm g snap src dst opts = Inr p \<longrightarrow>
      p \<in> set (candidate_routes cm g snap src dst opts)
      \<and> hd p = src \<and> last p = dst \<and> distinct p
      \<and> (\<forall>q \<in> set (candidate_routes cm g snap src dst opts). q \<noteq> p \<longrightarrow>
           preferred (hop_cost (cm snap opts) opts (segments g)) p q))
   \<and> (set (zones g') = set (zones g) \<and> set (segments g') = set (segments g) \<longrightarrow>
        findRoute cm g' snap src dst opts = findRoute cm g snap src dst opts)"
proof (rule conjI)
  show "findRoute cm g snap src dst opts = Inr p \<longrightarrow>
      p \<in> set (candidate_routes cm g snap src dst opts)
      \<and> hd p = src \<and> last p = dst \<and> distinct p
      \<and> (\<forall>q \<in> set (candidate_routes cm g snap src dst opts). q \<noteq> p \<longrightarrow>
           preferred (hop_cost (cm snap opts) opts (segments g)) p q)"
    by (rule impI) (rule findRoute_best)
  show "set (zones g') = set (zones g) \<and> set (segments g') = set (segments g) \<longrightarrow>
        findRoute cm g' snap src dst opts = findRoute cm g snap src dst opts"
  proof (rule impI)
    assume a: "set (zones g') = set (zones g) \<and> set (segments g') = set (segments g)"
    from a have z: "set (zones g') = set (zones g)" by (rule conjunct1)
    from a have s: "set (segments g') = set (segments g)" by (rule conjunct2)
    from z s show "findRoute cm g' snap src dst opts = findRoute cm g snap src dst opts"
      by (rule findRoute_cong)
  qed
qed

lemma tie_candidates:
  "candidate_routes base_time_cost tie_graph Map.empty ''X'' ''Y'' plain_options
     = [[''X'', ''Y''], [''X'', ''Z'', ''Y'']]"
  by (simp add: candidate_routes_def tie_graph_def hop_cost_def joins_def admissible_def
      plain_options_def simple_paths_arrived simple_paths_onward)

lemma tie_route:
  "findRoute base_time_cost tie_graph Map.empty ''X'' ''Y'' plain_options = Inr [''X'', ''Y'']"
  unfolding findRoute_def tie_candidates
  by (simp add: tie_graph_def hop_cost_def joins_def admissible_def plain_options_def
      base_time_cost_def route_key_def hops_def)

theorem findRoute_canonical_witness:
  "findRoute base_time_cost tie_graph Map.empty ''X'' ''Y'' plain_options = Inr [''X'', ''Y'']
   \<and> [''X'', ''Z'', ''Y''] \<in> set (candidate_routes base_time_cost tie_graph Map.empty ''X'' ''Y'' plain_options)
   \<and> path_cost (hop_cost (base_time_cost Map.empty plain_options) plain_options (segments tie_graph))
        [''X'', ''Z'', ''Y''] = 10
   \<and> path_cost (hop_cost (base_time_cost Map.empty plain_options) plain_options (segments tie_graph))
        [''X'', ''Y''] = 10
   \<and> preferred (hop_cost (base_time_cost Map.empty plain_options) plain_options (segments tie_graph))
        [''X'', ''Y''] [''X'', ''Z'', ''Y'']
   \<and> set (zones (tie_graph \<lparr> zones := rev (zones tie_graph), segments := rev (segments tie_graph) \<rparr>))
       = set (zones tie_graph)
   \<and> set (segments (tie_graph \<lparr> zones := rev (zones tie_graph), segments := rev (segments tie_graph) \<rparr>))
       = set (segments tie_graph)
   \<and> findRoute base_time_cost
        (tie_graph \<lparr> zones := rev (zones tie_graph), segments := rev (segments tie_graph) \<rparr>)
        Map.empty ''X'' ''Y'' plain_options = Inr [''X'', ''Y'']"
proof -
  let ?g' = "tie_graph \<lparr> zones := rev (zones tie_graph), segments := rev (segments tie_graph) \<rparr>"
  let ?hc = "hop_cost (base_time_cost Map.empty plain_options) plain_options (segments tie_graph)"
  let ?cs = "candidate_routes base_time_cost tie_graph Map.empty ''X'' ''Y'' plain_options"
  note t = findRoute_canonical [of base_time_cost tie_graph Map.empty "''X''" "''Y''" plain_options
      "[''X'', ''Y'']" ?g']
  have a: "[''X'', ''Z'', ''Y''] \<in> set ?cs"
    by (simp add: tie_candidates)
  have b: "[''X'', ''Z'', ''Y''] \<noteq> [''X'', ''Y'']" by simp
  note found = t [THEN conjunct1, THEN mp, OF tie_route]
  note best = found [THEN conjunct2, THEN conjunct2, THEN conjunct2, THEN conjunct2]
  from best a have "[''X'', ''Z'', ''Y''] \<noteq> [''X'', ''Y''] \<longrightarrow> preferred ?hc [''X'', ''Y''] [''X'', ''Z'', ''Y'']"
    by (rule bspec)
  from this b have c: "preferred ?hc [''X'', ''Y''] [''X'', ''Z'', ''Y'']" by (rule mp)
  have d: "set (zones ?g') = set (zones tie_graph) \<and> set (segments ?g') = set (segments tie_graph)"
    by simp
  from t [THEN conjunct2, THEN mp, OF d]
  have "findRoute base_time_cost ?g' Map.empty ''X'' ''Y'' plain_options
      = findRoute base_time_cost tie_graph Map.empty ''X'' ''Y'' plain_options" .
  then have e: "findRoute base_time_cost ?g' Map.empty ''X'' ''Y'' plain_options = Inr [''X'', ''Y'']"
    unfolding tie_route .
  have f: "path_cost ?hc [''X'', ''Z'', ''Y''] = 10 \<and> path_cost ?hc [''X'', ''Y''] = 10"
    by (simp add: tie_graph_def hop_cost_def joins_def admissible_def plain_options_def
        base_time_cost_def)
  from d have d1: "set (zones ?g') = set (zones tie_graph)" by (rule conjunct1)
  from d have d2: "set (segments ?g') = set (segments tie_graph)" by (rule conjunct2)
  from f have f1: "path_cost ?hc [''X'', ''Z'', ''Y''] = 10" by (rule conjunct1)
  from f have f2: "path_cost ?hc [''X'', ''Y''] = 10" by (rule conjunct2)
  from tie_route a f1 f2 c d1 d2 e show ?thesis by (intro conjI)
qed

end
